theory Spec2Isabelle
  imports Complex_Main
begin

section \<open>Data model\<close>

text \<open>
  Go strings are byte sequences; they are modelled as \<^typ>\<open>string\<close>, a list of 8-bit
  characters.  Record fields keep the names of the Go struct fields; where two structs
  share a field name the later record carries a short prefix, since record selectors are
  global constants.
\<close>

text \<open>
  A \<^verbatim>\<open>float64\<close> option value.  The program only assigns such values and compares them
  against zero, so a value is a real number or the not-a-number value, for which every
  ordered comparison is false and \<^verbatim>\<open>!=\<close> is true.
\<close>

datatype float64 = Num real | NaN

definition f_eq0 :: "float64 \<Rightarrow> bool" where
  "f_eq0 x = (x = Num 0)"

definition f_gt0 :: "float64 \<Rightarrow> bool" where
  "f_gt0 x = (case x of Num r \<Rightarrow> 0 < r | NaN \<Rightarrow> False)"

definition f_ne0 :: "float64 \<Rightarrow> bool" where
  "f_ne0 x = (x \<noteq> Num 0)"

text \<open>\<^verbatim>\<open>provider.Message\<close>, \<^verbatim>\<open>provider.StreamChunk\<close> and \<^verbatim>\<open>provider.Options\<close>
  (internal/provider/provider.go).  An \<^verbatim>\<open>error\<close> value is represented by its
  \<^verbatim>\<open>Error()\<close> text; \<open>None\<close> is the nil error.\<close>

record PMessage =
  pmRole :: string
  pmContent :: string

record StreamChunk =
  chunkContent :: string
  chunkDone :: bool
  chunkError :: "string option"

record Options =
  Model :: string
  MaxTokens :: int
  Temperature :: float64
  TopP :: float64
  TopK :: int
  FrequencyPenalty :: float64
  PresencePenalty :: float64

text \<open>\<^verbatim>\<open>provider.Options{}\<close>: the zero value of the struct.\<close>

definition Options_zero :: Options where
  "Options_zero = \<lparr>Model = [], MaxTokens = 0, Temperature = Num 0, TopP = Num 0, TopK = 0,
     FrequencyPenalty = Num 0, PresencePenalty = Num 0\<rparr>"

text \<open>\<^verbatim>\<open>agent.Agent\<close> (internal/agent/agent.go).  The \<^verbatim>\<open>Provider\<close> interface value is
  represented by the adapter's name, \<open>None\<close> being the nil interface.\<close>

record Agent =
  ID :: string
  Name :: string
  Role :: string
  SystemPrompt :: string
  ProviderType :: string
  agentModel :: string
  Color :: string
  agentTemperature :: float64
  agentMaxTokens :: int
  agentTopP :: float64
  agentTopK :: int
  agentFrequencyPenalty :: float64
  agentPresencePenalty :: float64
  Provider :: "string option"

text \<open>The errors a call can return.  Each constructor stands for one \<^verbatim>\<open>fmt.Errorf\<close>
  of the source (or for an error handed on from a callee, or for a run-time panic).\<close>

datatype error =
    AlreadyRunning            \<comment> \<open>"debate is already running"\<close>
  | NotRunning                \<comment> \<open>"debate is not running"\<close>
  | TurnInProgress            \<comment> \<open>"a turn is already in progress"\<close>
  | NoAgents                  \<comment> \<open>"no agents available"\<close>
  | AgentNotFound string      \<comment> \<open>"agent not found: %s"\<close>
  | ProviderNotInitialized string  \<comment> \<open>"provider not initialized for agent %s"\<close>
  | ChatFailed string         \<comment> \<open>the error returned by \<^verbatim>\<open>Agent.Chat\<close>\<close>
  | StreamFailed string       \<comment> \<open>the error carried by a stream chunk\<close>
  | IndexOutOfRange           \<comment> \<open>run-time panic of a slice index\<close>
  | DivisionByZero            \<comment> \<open>run-time panic of an integer division\<close>

section \<open>Functions of the Go library used by the program\<close>

text \<open>
  The functions of package \<^verbatim>\<open>strings\<close> that the program calls, on byte strings.
  \<open>Index\<close> returns \<open>None\<close> where Go returns \<open>-1\<close>.
\<close>

definition HasPrefix :: "string \<Rightarrow> string \<Rightarrow> bool" where
  "HasPrefix s p = (take (length p) s = p)"

definition HasSuffix :: "string \<Rightarrow> string \<Rightarrow> bool" where
  "HasSuffix s p = (length p \<le> length s \<and> drop (length s - length p) s = p)"

definition TrimPrefix :: "string \<Rightarrow> string \<Rightarrow> string" where
  "TrimPrefix s p = (if HasPrefix s p then drop (length p) s else s)"

fun Index :: "string \<Rightarrow> string \<Rightarrow> nat option" where
  "Index [] sub = (if sub = [] then Some 0 else None)"
| "Index (c # cs) sub =
     (if HasPrefix (c # cs) sub then Some 0 else map_option Suc (Index cs sub))"

definition Contains :: "string \<Rightarrow> string \<Rightarrow> bool" where
  "Contains s sub = (Index s sub \<noteq> None)"

definition lowerByte :: "char \<Rightarrow> char" where
  "lowerByte c =
    (case map_of (zip ''ABCDEFGHIJKLMNOPQRSTUVWXYZ'' ''abcdefghijklmnopqrstuvwxyz'') c of
       None \<Rightarrow> c | Some d \<Rightarrow> d)"

definition upperByte :: "char \<Rightarrow> char" where
  "upperByte c =
    (case map_of (zip ''abcdefghijklmnopqrstuvwxyz'' ''ABCDEFGHIJKLMNOPQRSTUVWXYZ'') c of
       None \<Rightarrow> c | Some d \<Rightarrow> d)"

text \<open>
  \<^verbatim>\<open>strings.ToLower\<close> maps every rune of the UTF-8 text to its lower case.  The runes
  whose lower case is an ASCII letter are the letters A to Z, U+0130 (bytes C4 B0, lower
  case \<open>i\<close>) and U+212A (bytes E2 84 AA, lower case \<open>k\<close>); neither byte sequence can occur
  other than as that rune.  Every other rune is written by Go as a rune outside ASCII
  (bytes from 0x80 on); the model leaves its bytes as they are, which are outside ASCII
  as well.  The program only searches the result for ASCII words, and for that the two
  agree.
\<close>

fun ToLower :: "string \<Rightarrow> string" where
  "ToLower [] = []"
| "ToLower (c # cs) =
     (if HasPrefix (c # cs) [CHR 0xC4, CHR 0xB0] then CHR ''i'' # ToLower (drop 1 cs)
      else if HasPrefix (c # cs) [CHR 0xE2, CHR 0x84, CHR 0xAA]
        then CHR ''k'' # ToLower (drop 2 cs)
      else lowerByte c # ToLower cs)"

text \<open>
  \<^verbatim>\<open>strings.TrimSpace\<close> removes the leading and trailing white-space runes
  (\<^verbatim>\<open>unicode.IsSpace\<close>).  \<open>spaceRunes\<close> lists their UTF-8 encodings: tab, line feed,
  vertical tab, form feed, carriage return, space, U+0085, U+00A0, U+1680, U+2000 to
  U+200A, U+2028, U+2029, U+202F, U+205F and U+3000.
\<close>

definition spaceRunes :: "string list" where
  "spaceRunes =
    [[CHR 0x09], [CHR 0x0A], [CHR 0x0B], [CHR 0x0C], [CHR 0x0D], [CHR 0x20],
     [CHR 0xC2, CHR 0x85], [CHR 0xC2, CHR 0xA0], [CHR 0xE1, CHR 0x9A, CHR 0x80],
     [CHR 0xE2, CHR 0x80, CHR 0x80], [CHR 0xE2, CHR 0x80, CHR 0x81],
     [CHR 0xE2, CHR 0x80, CHR 0x82], [CHR 0xE2, CHR 0x80, CHR 0x83],
     [CHR 0xE2, CHR 0x80, CHR 0x84], [CHR 0xE2, CHR 0x80, CHR 0x85],
     [CHR 0xE2, CHR 0x80, CHR 0x86], [CHR 0xE2, CHR 0x80, CHR 0x87],
     [CHR 0xE2, CHR 0x80, CHR 0x88], [CHR 0xE2, CHR 0x80, CHR 0x89],
     [CHR 0xE2, CHR 0x80, CHR 0x8A], [CHR 0xE2, CHR 0x80, CHR 0xA8],
     [CHR 0xE2, CHR 0x80, CHR 0xA9], [CHR 0xE2, CHR 0x80, CHR 0xAF],
     [CHR 0xE2, CHR 0x81, CHR 0x9F], [CHR 0xE3, CHR 0x80, CHR 0x80]]"

text \<open>The length of the white-space rune at the start (at the end) of \<open>s\<close>, 0 if there
  is none.\<close>

definition spaceAtStart :: "string \<Rightarrow> nat" where
  "spaceAtStart s = (case find (HasPrefix s) spaceRunes of None \<Rightarrow> 0 | Some p \<Rightarrow> length p)"

definition spaceAtEnd :: "string \<Rightarrow> nat" where
  "spaceAtEnd s = (case find (HasSuffix s) spaceRunes of None \<Rightarrow> 0 | Some p \<Rightarrow> length p)"

fun trimLeft :: "string \<Rightarrow> string" where
  "trimLeft [] = []"
| "trimLeft (c # cs) =
     (if 0 < spaceAtStart (c # cs) then trimLeft (drop (spaceAtStart (c # cs) - 1) cs)
      else c # cs)"

function trimRight :: "string \<Rightarrow> string" where
  "trimRight s =
     (if s \<noteq> [] \<and> 0 < spaceAtEnd s then trimRight (take (length s - spaceAtEnd s) s)
      else s)"
  by pat_completeness auto
termination
  by (relation "measure length") auto

definition TrimSpace :: "string \<Rightarrow> string" where
  "TrimSpace s = trimRight (trimLeft s)"

text \<open>\<^verbatim>\<open>strings.Split(s, sep)\<close> and \<^verbatim>\<open>strings.Join(ls, sep)\<close>; the program splits at the
  one-byte separator \<^verbatim>\<open>"\n"\<close>.\<close>

fun Split :: "string \<Rightarrow> char \<Rightarrow> string list" where
  "Split [] sep = [[]]"
| "Split (c # cs) sep =
     (if c = sep then [] # Split cs sep
      else (case Split cs sep of [] \<Rightarrow> [[c]] | l # ls \<Rightarrow> (c # l) # ls))"

fun Join :: "string list \<Rightarrow> string \<Rightarrow> string" where
  "Join [] sep = []"
| "Join [l] sep = l"
| "Join (l # ls) sep = l @ sep @ Join ls sep"

text \<open>\<^verbatim>\<open>strings.ReplaceAll(s, old, "")\<close>: the occurrences of \<open>old\<close>, found from left to
  right without overlap, are removed.\<close>

fun ReplaceAll :: "string \<Rightarrow> string \<Rightarrow> string" where
  "ReplaceAll [] old = []"
| "ReplaceAll (c # cs) old =
     (if old \<noteq> [] \<and> HasPrefix (c # cs) old then ReplaceAll (drop (length old - 1) cs) old
      else c # ReplaceAll cs old)"

text \<open>
  The Go type \<^verbatim>\<open>int\<close> has 64 bits: a value is an integer from \<open>- 2 ^ 63\<close> up to
  \<open>2 ^ 63 - 1\<close>, and \<^verbatim>\<open>n++\<close> wraps around from the largest value to the smallest.
\<close>

definition inc64 :: "int \<Rightarrow> int" where
  "inc64 n = (n + 1 + 2 ^ 63) mod 2 ^ 64 - 2 ^ 63"

text \<open>\<^verbatim>\<open>fmt.Sprintf("%d", n)\<close>: the decimal digits, after a minus sign when \<open>n\<close> is
  negative.\<close>

definition digit :: "nat \<Rightarrow> char" where
  "digit d = ''0123456789'' ! d"

fun utoa :: "nat \<Rightarrow> string" where
  "utoa n = (if n < 10 then [digit n] else utoa (n div 10) @ [digit (n mod 10)])"

definition itoa :: "int \<Rightarrow> string" where
  "itoa n = (if n < 0 then ''-'' @ utoa (nat (- n)) else utoa (nat n))"

section \<open>Regular expressions\<close>

text \<open>
  Package \<^verbatim>\<open>regexp\<close> returns, among the matches that begin leftmost, the one that a
  backtracking search finds first.  \<open>matches r s\<close> lists, in the order of that search,
  what is left of \<open>s\<close> after each way of matching \<open>r\<close> at the start of \<open>s\<close>: a greedy
  star tries one more repetition before it tries to stop, a lazy star the other way
  round.  A repetition that consumes nothing is not continued.  Expressions are over
  bytes; the patterns of the program only name ASCII characters, complemented classes
  and the dot (under \<^verbatim>\<open>(?s)\<close>), for which matching bytes and matching runes agree.
\<close>

datatype regex =
    Eps
  | Lit char
  | OneOf "char list"
  | NoneOf "char list"
  | AnyByte
  | Seq regex regex
  | Alt regex regex
  | Opt regex
  | Star regex
  | LazyStar regex

function matches :: "regex \<Rightarrow> string \<Rightarrow> string list" where
  "matches Eps s = [s]"
| "matches (Lit c) s = (case s of [] \<Rightarrow> [] | x # xs \<Rightarrow> if x = c then [xs] else [])"
| "matches (OneOf cs) s = (case s of [] \<Rightarrow> [] | x # xs \<Rightarrow> if x \<in> set cs then [xs] else [])"
| "matches (NoneOf cs) s = (case s of [] \<Rightarrow> [] | x # xs \<Rightarrow> if x \<notin> set cs then [xs] else [])"
| "matches AnyByte s = (case s of [] \<Rightarrow> [] | x # xs \<Rightarrow> [xs])"
| "matches (Seq r1 r2) s = concat (map (matches r2) (matches r1 s))"
| "matches (Alt r1 r2) s = matches r1 s @ matches r2 s"
| "matches (Opt r) s = matches r s @ [s]"
| "matches (Star r) s =
     concat (map (matches (Star r)) (filter (\<lambda>s'. length s' < length s) (matches r s))) @ [s]"
| "matches (LazyStar r) s =
     s # concat (map (matches (LazyStar r)) (filter (\<lambda>s'. length s' < length s) (matches r s)))"
  by pat_completeness auto
termination
  by (relation "measure size <*lex*> measure length") auto

text \<open>
  \<^verbatim>\<open>re.ReplaceAllString(s, "")\<close>: the leftmost match is removed and the search goes on
  behind it.  None of the patterns of the program matches the empty string (lemma
  \<open>patterns_consume\<close> below), so Go's rule for empty matches is never used; the
  model skips a byte where a match is empty.
\<close>

fun ReplaceAllString :: "regex \<Rightarrow> string \<Rightarrow> string" where
  "ReplaceAllString r [] = []"
| "ReplaceAllString r (c # cs) =
     (case matches r (c # cs) of
        [] \<Rightarrow> c # ReplaceAllString r cs
      | s' # _ \<Rightarrow> if length s' \<le> length cs then ReplaceAllString r s'
                  else c # ReplaceAllString r cs)"

text \<open>A literal string; a letter under \<^verbatim>\<open>(?i)\<close>, which matches every rune of its
  case-folding orbit (for \<open>k\<close> also U+212A, for \<open>s\<close> also U+017F); the class \<^verbatim>\<open>\s\<close>.\<close>

definition str :: "string \<Rightarrow> regex" where
  "str s = foldr (\<lambda>c r. Seq (Lit c) r) s Eps"

definition fold_lit :: "char \<Rightarrow> regex" where
  "fold_lit c =
    (if c = CHR ''k'' then Alt (OneOf ''kK'') (str [CHR 0xE2, CHR 0x84, CHR 0xAA])
     else if c = CHR ''s'' then Alt (OneOf ''sS'') (str [CHR 0xC5, CHR 0xBF])
     else OneOf [lowerByte c, upperByte c])"

definition istr :: "string \<Rightarrow> regex" where
  "istr s = foldr (\<lambda>c r. Seq (fold_lit c) r) s Eps"

definition space :: regex where
  "space = OneOf [CHR 0x09, CHR 0x0A, CHR 0x0C, CHR 0x0D, CHR 0x20]"

text \<open>A sequence of expressions.\<close>

definition seqs :: "regex list \<Rightarrow> regex" where
  "seqs rs = foldr Seq rs Eps"

section \<open>Agent.Chat: merging the per-call options with the agent's defaults\<close>

text \<open>Lines 62--85 of internal/agent/agent.go: seven \<^verbatim>\<open>if\<close> statements, each updating
  one field of \<^verbatim>\<open>opts\<close>, run one after the other.\<close>

definition fillModel :: "Agent \<Rightarrow> Options \<Rightarrow> Options" where
  "fillModel a opts = (if Model opts = [] then opts\<lparr>Model := agentModel a\<rparr> else opts)"

definition fillTemperature :: "Agent \<Rightarrow> Options \<Rightarrow> Options" where
  "fillTemperature a opts =
    (if f_eq0 (Temperature opts) \<and> f_gt0 (agentTemperature a)
     then opts\<lparr>Temperature := agentTemperature a\<rparr> else opts)"

definition fillMaxTokens :: "Agent \<Rightarrow> Options \<Rightarrow> Options" where
  "fillMaxTokens a opts =
    (if MaxTokens opts = 0 \<and> 0 < agentMaxTokens a
     then opts\<lparr>MaxTokens := agentMaxTokens a\<rparr> else opts)"

definition fillTopP :: "Agent \<Rightarrow> Options \<Rightarrow> Options" where
  "fillTopP a opts =
    (if f_eq0 (TopP opts) \<and> f_gt0 (agentTopP a) then opts\<lparr>TopP := agentTopP a\<rparr> else opts)"

definition fillTopK :: "Agent \<Rightarrow> Options \<Rightarrow> Options" where
  "fillTopK a opts =
    (if TopK opts = 0 \<and> 0 < agentTopK a then opts\<lparr>TopK := agentTopK a\<rparr> else opts)"

definition fillFrequencyPenalty :: "Agent \<Rightarrow> Options \<Rightarrow> Options" where
  "fillFrequencyPenalty a opts =
    (if f_eq0 (FrequencyPenalty opts) \<and> f_ne0 (agentFrequencyPenalty a)
     then opts\<lparr>FrequencyPenalty := agentFrequencyPenalty a\<rparr> else opts)"

definition fillPresencePenalty :: "Agent \<Rightarrow> Options \<Rightarrow> Options" where
  "fillPresencePenalty a opts =
    (if f_eq0 (PresencePenalty opts) \<and> f_ne0 (agentPresencePenalty a)
     then opts\<lparr>PresencePenalty := agentPresencePenalty a\<rparr> else opts)"

definition mergeOptions :: "Agent \<Rightarrow> Options \<Rightarrow> Options" where
  "mergeOptions a opts =
    fillPresencePenalty a (fillFrequencyPenalty a (fillTopK a (fillTopP a
      (fillMaxTokens a (fillTemperature a (fillModel a opts))))))"

text \<open>\<^verbatim>\<open>Agent.Chat\<close>: the result is the error of the nil-provider check, or the
  arguments with which \<^verbatim>\<open>a.Provider.Chat\<close> is called.\<close>

definition Chat :: "Agent \<Rightarrow> PMessage list \<Rightarrow> Options \<Rightarrow> error + (PMessage list \<times> Options)" where
  "Chat a msgs opts =
    (if Provider a = None then Inl (ProviderNotInitialized (ID a))
     else
       let fullMessages = (if SystemPrompt a \<noteq> []
              then [\<lparr>pmRole = ''system'', pmContent = SystemPrompt a\<rparr>] else []);
           fullMessages = fullMessages @ msgs
       in Inr (fullMessages, mergeOptions a opts))"

section \<open>The content sanitizer\<close>

text \<open>The patterns compiled at the top of package \<^verbatim>\<open>debate\<close>, in the order of the source.
  \<open>dq\<close> is the double quote.\<close>

definition dq :: char where
  "dq = CHR 0x22"

definition thinkingBlockRegex :: regex where
  "thinkingBlockRegex = seqs [str ''<thinking'', Star (NoneOf ''>''), Lit (CHR ''>''),
     LazyStar AnyByte, str ''</thinking>'']"

definition antThinkingBlockRegex :: regex where
  "antThinkingBlockRegex = seqs [str ''<antThinking'', Star (NoneOf ''>''), Lit (CHR ''>''),
     LazyStar AnyByte, str ''</antThinking>'']"

definition signatureBlockRegex :: regex where
  "signatureBlockRegex = seqs [str ''<signature'', Star (NoneOf ''>''), Lit (CHR ''>''),
     LazyStar AnyByte, str ''</signature>'']"

definition signatureAttrRegex :: regex where
  "signatureAttrRegex = seqs [Star space, str ''signature'', Star space, Lit (CHR ''=''),
     Star space, Lit dq, Star (NoneOf [dq]), Lit dq]"

definition jsonThinkingRegex :: regex where
  "jsonThinkingRegex = seqs [Lit (CHR ''{''), Star (NoneOf ''{}''),
     Lit dq, str ''type'', Lit dq, Star space, Lit (CHR '':''), Star space,
     Lit dq, str ''thinking'', Lit dq, Star (NoneOf ''{}''), Lit (CHR ''}'')]"

definition anyThinkingTagRegex :: regex where
  "anyThinkingTagRegex = seqs [Lit (CHR ''<''), Opt (Lit (CHR ''/'')), istr ''thinking'',
     Star (NoneOf ''>''), Lit (CHR ''>'')]"

definition anySignatureRegex :: regex where
  "anySignatureRegex = seqs [Lit dq, istr ''signature'', Lit dq, Star space, Lit (CHR '':''),
     Star space, Lit dq, Star (NoneOf [dq]), Lit dq]"

definition thinkingContentRegex :: regex where
  "thinkingContentRegex = seqs [Lit (CHR ''[''), Star space, Lit (CHR ''{''),
     Star (NoneOf '']''), Lit dq, str ''type'', Lit dq, Star space, Lit (CHR '':''), Star space,
     Lit dq, str ''thinking'', Lit dq, Star (NoneOf '']''), Lit (CHR ''}''), Star space,
     Lit (CHR '']'')]"

definition contentArrayRegex :: regex where
  "contentArrayRegex = seqs [Lit (CHR ''[''), Star space, Lit (CHR ''{''),
     Star (NoneOf '']''), Lit dq, str ''type'', Lit dq, Star space, Lit (CHR '':''), Star space,
     Lit dq, Alt (str ''thinking'') (str ''text''), Lit dq, Star (NoneOf '']''),
     Lit (CHR ''}''), Star space,
     Star (seqs [Lit (CHR '',''), Star space, Lit (CHR ''{''), Star (NoneOf '']''),
                 Lit (CHR ''}''), Star space]),
     Lit (CHR '']'')]"

text \<open>The first pass of \<^verbatim>\<open>cleanMessageContent\<close>: the nine replacements, in order.\<close>

definition regexPasses :: "string \<Rightarrow> string" where
  "regexPasses content =
    (let result = content;
         result = ReplaceAllString thinkingBlockRegex result;
         result = ReplaceAllString antThinkingBlockRegex result;
         result = ReplaceAllString signatureBlockRegex result;
         result = ReplaceAllString signatureAttrRegex result;
         result = ReplaceAllString jsonThinkingRegex result;
         result = ReplaceAllString anyThinkingTagRegex result;
         result = ReplaceAllString anySignatureRegex result;
         result = ReplaceAllString thinkingContentRegex result;
         result = ReplaceAllString contentArrayRegex result
     in result)"

text \<open>
  The loop that removes \<^verbatim>\<open>[thinking]...[/thinking]\<close> spans.  \<^verbatim>\<open>end\<close> is the first
  \<^verbatim>\<open>[/thinking]\<close> of the whole text, which may lie before \<^verbatim>\<open>start\<close>; the loop then does
  not shorten the text and need not end, so the result is an option and \<open>None\<close> stands
  for a loop that runs forever.
\<close>

partial_function (option) removeThinkingSpans :: "string \<Rightarrow> string option" where
  "removeThinkingSpans result =
    (case Index result ''[thinking]'' of
       None \<Rightarrow> Some result
     | Some start \<Rightarrow>
        (case Index result ''[/thinking]'' of
           None \<Rightarrow> Some (take start result)
         | Some end \<Rightarrow>
             removeThinkingSpans
               (take start result @ drop (end + length ''[/thinking]'') result)))"

text \<open>The body of the loop over the lines: \<open>keepLine line\<close> holds when the line is
  appended to \<^verbatim>\<open>cleanLines\<close>.\<close>

definition keepLine :: "string \<Rightarrow> bool" where
  "keepLine line =
    (let trimmed = TrimSpace line; lowerTrimmed = ToLower trimmed in
     if trimmed = [] \<or> trimmed = '','' \<or> trimmed = ''{'' \<or> trimmed = ''}''
        \<or> trimmed = ''['' \<or> trimmed = '']'' then False
     else if Contains lowerTrimmed ''thinking'' \<or> Contains lowerTrimmed ''signature''
        \<or> HasPrefix trimmed ([dq] @ ''type'' @ [dq])
        \<or> HasPrefix trimmed (''{'' @ [dq] @ ''type'' @ [dq])
        \<or> HasPrefix trimmed (''[{'' @ [dq] @ ''type'' @ [dq]) then False
     else True)"

text \<open>What follows the loop over \<^verbatim>\<open>[thinking]\<close> spans: the line filter and the final
  clean-up.\<close>

definition cleanLinesAndArtifacts :: "string \<Rightarrow> string" where
  "cleanLinesAndArtifacts result =
    (let lines = Split result (CHR 0x0A);
         cleanLines = filter keepLine lines;
         result = TrimSpace (Join cleanLines [CHR 0x0A]);
         result = ReplaceAll result [dq, dq];
         result = ReplaceAll result ''{}'';
         result = ReplaceAll result ''[]''
     in TrimSpace result)"

definition cleanMessageContent :: "string \<Rightarrow> string option" where
  "cleanMessageContent content =
    (if content = [] then Some []
     else map_option cleanLinesAndArtifacts (removeThinkingSpans (regexPasses content)))"

text \<open>
  Two notions for stating what the sanitizer leaves alone.  \<open>needs r c\<close> holds when
  every match of \<open>r\<close> contains the byte \<open>c\<close>, as read off the shape of \<open>r\<close>.  A text
  is plain when it has none of the characters \<^verbatim>\<open><\<close>, \<^verbatim>\<open>"\<close>, \<^verbatim>\<open>{\<close> and \<^verbatim>\<open>[\<close>, no
  white space at its start or end, and only lines that the loop over the lines keeps.
\<close>

fun needs :: "regex \<Rightarrow> char \<Rightarrow> bool" where
  "needs (Lit d) c = (d = c)"
| "needs (Seq r1 r2) c = (needs r1 c \<or> needs r2 c)"
| "needs (Alt r1 r2) c = (needs r1 c \<and> needs r2 c)"
| "needs _ c = False"


section \<open>The debate manager\<close>

datatype Mode = ModeRoundRobin | ModeFreeForm

text \<open>\<^verbatim>\<open>debate.Message\<close>; the time stamp is a number supplied by the clock.\<close>

record Message =
  msgID :: string
  msgAgentID :: string
  msgAgentName :: string
  msgContent :: string
  msgTimestamp :: nat
  msgColor :: string

text \<open>\<^verbatim>\<open>debate.StreamMessage\<close>, the events sent on the stream channel.\<close>

record StreamMessage =
  evType :: string
  evAgentID :: string
  evAgentName :: string
  evContent :: string
  evMessageID :: string
  evColor :: string
  evError :: string

text \<open>
  \<^verbatim>\<open>debate.Manager\<close>.  The mutex is not a field: every section of code that runs with
  the lock held is one function of the model, hence atomic.  Cancellation scopes live in
  the store \<open>scopes\<close>: \<^verbatim>\<open>context.WithCancel\<close> allocates the next cell, holding
  \<open>False\<close> (not cancelled), and calling the cancel function sets the cell to \<open>True\<close>.
  The fields \<^verbatim>\<open>ctx\<close> and \<^verbatim>\<open>cancel\<close> are always assigned together and are the one field
  \<open>ctx\<close>, the address of the current scope, \<open>None\<close> for nil.  \<^verbatim>\<open>msgCounter\<close> is a
  64-bit integer that wraps around.  \<^verbatim>\<open>currentIndex\<close> is only ever set to 0, to an
  index of the roster or to a remainder modulo the length of the roster, so it is a
  natural number below that length and its arithmetic cannot overflow.
\<close>

record Manager =
  agents :: "Agent list"
  messages :: "Message list"
  topic :: string
  mode :: Mode
  currentIndex :: nat
  isRunning :: bool
  isTurnInProgress :: bool
  ctx :: "nat option"
  msgCounter :: int
  scopes :: "bool list"

definition NewManager :: "Agent list \<Rightarrow> Manager" where
  "NewManager ags = \<lparr>agents = ags, messages = [], topic = [], mode = ModeRoundRobin,
     currentIndex = 0, isRunning = False, isTurnInProgress = False, ctx = None,
     msgCounter = 0, scopes = []\<rparr>"

definition SetMode :: "Manager \<Rightarrow> Mode \<Rightarrow> Manager" where
  "SetMode m md = m\<lparr>mode := md\<rparr>"

text \<open>\<^verbatim>\<open>m.ctx, m.cancel = context.WithCancel(context.Background())\<close>\<close>

definition withCancel :: "Manager \<Rightarrow> Manager" where
  "withCancel m = m\<lparr>ctx := Some (length (scopes m)), scopes := scopes m @ [False]\<rparr>"

text \<open>\<^verbatim>\<open>if m.cancel != nil { m.cancel() }\<close>\<close>

definition cancelScope :: "Manager \<Rightarrow> Manager" where
  "cancelScope m = (case ctx m of None \<Rightarrow> m | Some i \<Rightarrow> m\<lparr>scopes := (scopes m)[i := True]\<rparr>)"

definition Start :: "Manager \<Rightarrow> string \<Rightarrow> error + Manager" where
  "Start m t =
    (if isRunning m then Inl AlreadyRunning
     else Inr (withCancel (m\<lparr>topic := t, messages := [], currentIndex := 0, isRunning := True\<rparr>)))"

definition Stop :: "Manager \<Rightarrow> Manager" where
  "Stop m = (cancelScope m)\<lparr>isRunning := False\<rparr>"

definition Reset :: "Manager \<Rightarrow> Manager" where
  "Reset m = (cancelScope m)\<lparr>messages := [], topic := [], isRunning := False,
     currentIndex := 0, msgCounter := 0\<rparr>"

definition UpdateAgents :: "Manager \<Rightarrow> Agent list \<Rightarrow> Manager" where
  "UpdateAgents m ags = m\<lparr>agents := ags, currentIndex := 0\<rparr>"

text \<open>\<^verbatim>\<open>Continue\<close>: the separator message is written by the agent id \<^verbatim>\<open>system\<close>; its name
  and text are the UTF-8 bytes of the Vietnamese strings of the source.\<close>

definition systemName :: string where
  "systemName = [CHR ''H'', CHR 0xE1, CHR 0xBB, CHR 0x87, CHR '' '', CHR ''t'', CHR ''h'',
     CHR 0xE1, CHR 0xBB, CHR 0x91, CHR ''n'', CHR ''g'']"

definition topicChange :: "string \<Rightarrow> string" where
  "topicChange newTopic =
     ''--- Chuy'' @ [CHR 0xE1, CHR 0xBB, CHR 0x83] @ ''n sang ch'' @ [CHR 0xE1, CHR 0xBB, CHR 0xA7]
     @ '' '' @ [CHR 0xC4, CHR 0x91, CHR 0xE1, CHR 0xBB, CHR 0x81] @ '' m''
     @ [CHR 0xE1, CHR 0xBB, CHR 0x9B] @ ''i: '' @ newTopic @ '' ---''"

definition Continue :: "Manager \<Rightarrow> string \<Rightarrow> nat \<Rightarrow> Manager" where
  "Continue m newTopic now =
    (let m = (if messages m \<noteq> [] then
                m\<lparr>msgCounter := inc64 (msgCounter m),
                  messages := messages m @
                    [\<lparr>msgID = ''msg_'' @ itoa (inc64 (msgCounter m)), msgAgentID = ''system'',
                      msgAgentName = systemName, msgContent = topicChange newTopic,
                      msgTimestamp = now, msgColor = ''#888888''\<rparr>]\<rparr>
              else m)
     in withCancel (m\<lparr>topic := newTopic, isRunning := True\<rparr>))"

subsection \<open>Selecting the speaker\<close>

text \<open>The loop of \<^verbatim>\<open>selectNextAgent\<close>: the first agent of the roster, with its index,
  whose id is not \<open>lastSpeaker\<close>.\<close>

fun firstOther :: "string \<Rightarrow> Agent list \<Rightarrow> nat \<Rightarrow> (nat \<times> Agent) option" where
  "firstOther lastSpeaker [] i = None"
| "firstOther lastSpeaker (a # as) i =
     (if ID a \<noteq> lastSpeaker then Some (i, a) else firstOther lastSpeaker as (Suc i))"

definition selectNextAgent :: "Manager \<Rightarrow> error + (Manager \<times> Agent)" where
  "selectNextAgent m =
    (if messages m = [] then
       (case agents m of [] \<Rightarrow> Inl IndexOutOfRange | a # _ \<Rightarrow> Inr (m, a))
     else
       let lastSpeaker = msgAgentID (last (messages m)) in
       case firstOther lastSpeaker (agents m) 0 of
         Some (i, a) \<Rightarrow> Inr (m\<lparr>currentIndex := i\<rparr>, a)
       | None \<Rightarrow>
          (if agents m = [] then Inl DivisionByZero
           else let i = (currentIndex m + 1) mod length (agents m)
                in Inr (m\<lparr>currentIndex := i\<rparr>, agents m ! i)))"

subsection \<open>The first locked section of a turn\<close>

text \<open>Lines 371--396 of \<^verbatim>\<open>NextTurn\<close> and 502--532 of \<^verbatim>\<open>TurnByAgent\<close>: the checks, the
  setting of the turn-in-progress flag and the choice of the speaker, all under one
  hold of the lock.  The result is the error returned, or the new state and the
  speaker.\<close>

definition NextTurn_begin :: "Manager \<Rightarrow> error + (Manager \<times> Agent)" where
  "NextTurn_begin m =
    (if \<not> isRunning m then Inl NotRunning
     else if isTurnInProgress m then Inl TurnInProgress
     else if agents m = [] then Inl NoAgents
     else
       let m = m\<lparr>isTurnInProgress := True\<rparr> in
       if mode m = ModeRoundRobin then
         (if currentIndex m < length (agents m)
          then Inr (m\<lparr>currentIndex := (currentIndex m + 1) mod length (agents m)\<rparr>,
                    agents m ! currentIndex m)
          else Inl IndexOutOfRange)
       else selectNextAgent m)"

definition TurnByAgent_begin :: "Manager \<Rightarrow> string \<Rightarrow> error + (Manager \<times> Agent)" where
  "TurnByAgent_begin m agentID =
    (if \<not> isRunning m then Inl NotRunning
     else if isTurnInProgress m then Inl TurnInProgress
     else if agents m = [] then Inl NoAgents
     else
       case find (\<lambda>a. ID a = agentID) (agents m) of
         None \<Rightarrow> Inl (AgentNotFound agentID)
       | Some targetAgent \<Rightarrow> Inr (m\<lparr>isTurnInProgress := True\<rparr>, targetAgent))"

subsection \<open>The rest of a turn\<close>

text \<open>The second locked section: \<^verbatim>\<open>m.msgCounter++\<close> and the message id.\<close>

definition nextMsgID :: "Manager \<Rightarrow> Manager \<times> string" where
  "nextMsgID m =
     (m\<lparr>msgCounter := inc64 (msgCounter m)\<rparr>, ''msg_'' @ itoa (inc64 (msgCounter m)))"

definition startEv :: "Agent \<Rightarrow> string \<Rightarrow> StreamMessage" where
  "startEv a mid = \<lparr>evType = ''start'', evAgentID = ID a, evAgentName = Name a,
     evContent = [], evMessageID = mid, evColor = Color a, evError = []\<rparr>"

definition chunkEv :: "Agent \<Rightarrow> string \<Rightarrow> string \<Rightarrow> StreamMessage" where
  "chunkEv a mid c = \<lparr>evType = ''chunk'', evAgentID = ID a, evAgentName = [],
     evContent = c, evMessageID = mid, evColor = [], evError = []\<rparr>"

definition endEv :: "Agent \<Rightarrow> string \<Rightarrow> StreamMessage" where
  "endEv a mid = \<lparr>evType = ''end'', evAgentID = ID a, evAgentName = [],
     evContent = [], evMessageID = mid, evColor = [], evError = []\<rparr>"

definition errorEv :: "string \<Rightarrow> StreamMessage" where
  "errorEv e = \<lparr>evType = ''error'', evAgentID = [], evAgentName = [],
     evContent = [], evMessageID = [], evColor = [], evError = e\<rparr>"

text \<open>
  The loop \<^verbatim>\<open>for chunk := range respCh\<close>.  The list holds the chunks that the channel
  delivers before it is closed.  The result is the events sent during the loop and the
  way the loop is left.  The test \<^verbatim>\<open>chunk.Error == context.Canceled\<close> is covered by the
  test on the text, the text of that error being \<^verbatim>\<open>context canceled\<close>.
\<close>

datatype collected = Cancelled | Failed string | Collected string

fun collect :: "Agent \<Rightarrow> string \<Rightarrow> StreamChunk list \<Rightarrow> string \<Rightarrow> StreamMessage list \<times> collected"
  where
  "collect a mid [] fullContent = ([], Collected fullContent)"
| "collect a mid (chunk # rest) fullContent =
     (case chunkError chunk of
        Some e \<Rightarrow> ([], if Contains e ''context canceled'' then Cancelled else Failed e)
      | None \<Rightarrow>
         (let fullContent = (if chunkContent chunk \<noteq> []
                             then fullContent @ chunkContent chunk else fullContent);
              evs = (if chunkContent chunk \<noteq> []
                     then [chunkEv a mid (chunkContent chunk)] else [])
          in if chunkDone chunk then (evs, Collected fullContent)
             else (case collect a mid rest fullContent of (evs', r) \<Rightarrow> (evs @ evs', r))))"

text \<open>
  The ways a turn comes to its end and what its last locked section does to the
  manager: a failure of \<^verbatim>\<open>Chat\<close> returns at once; a cancelled and a failed stream clear
  the flag; a collected response is stored and the flag cleared.
\<close>

datatype ending = ChatFails | StreamCancelled | StreamFails | Stores Message

fun finish :: "ending \<Rightarrow> Manager \<Rightarrow> Manager" where
  "finish ChatFails m = m"
| "finish StreamCancelled m = m\<lparr>isTurnInProgress := False\<rparr>"
| "finish StreamFails m = m\<lparr>isTurnInProgress := False\<rparr>"
| "finish (Stores msg) m = m\<lparr>messages := messages m @ [msg], isTurnInProgress := False\<rparr>"

text \<open>
  A turn after its first locked section, common to \<^verbatim>\<open>NextTurn\<close> and \<^verbatim>\<open>TurnByAgent\<close>
  (the two bodies differ in the name of one variable).  \<open>chat\<close> is what
  \<^verbatim>\<open>Agent.Chat\<close> returns for this turn, an error text or the chunks of the stream; it
  is the answer of the upstream service and is left open, so the context built by
  \<^verbatim>\<open>buildContext\<close> does not occur.  The lock is free while the response streams:
  \<open>during\<close> is the effect on the manager of the calls of other goroutines in that time
  (the identity when there are none).  The result is the manager, the events sent and
  the error returned; \<open>None\<close> when the sanitizer does not return.
\<close>

definition turn :: "(Manager \<Rightarrow> Manager) \<Rightarrow> Manager \<Rightarrow> Agent \<Rightarrow> string + StreamChunk list \<Rightarrow> nat
    \<Rightarrow> (Manager \<times> StreamMessage list \<times> error option) option" where
  "turn during m a chat now =
    (case nextMsgID m of (m, mid) \<Rightarrow>
      (case chat of
         Inl e \<Rightarrow> Some (finish ChatFails m, [startEv a mid, errorEv e], Some (ChatFailed e))
       | Inr chunks \<Rightarrow>
          (case collect a mid chunks [] of
             (evs, Cancelled) \<Rightarrow>
               Some (finish StreamCancelled (during m), startEv a mid # evs @ [endEv a mid], None)
           | (evs, Failed e) \<Rightarrow>
               Some (finish StreamFails (during m), startEv a mid # evs @ [errorEv e],
                     Some (StreamFailed e))
           | (evs, Collected rawContent) \<Rightarrow>
              (case cleanMessageContent rawContent of
                 None \<Rightarrow> None
               | Some cleanedContent \<Rightarrow>
                  Some (finish (Stores \<lparr>msgID = mid, msgAgentID = ID a, msgAgentName = Name a,
                                  msgContent = cleanedContent, msgTimestamp = now,
                                  msgColor = Color a\<rparr>) (during m),
                        startEv a mid # evs @ [endEv a mid], None)))))"

definition NextTurn :: "(Manager \<Rightarrow> Manager) \<Rightarrow> Manager \<Rightarrow> string + StreamChunk list \<Rightarrow> nat
    \<Rightarrow> (Manager \<times> StreamMessage list \<times> error option) option" where
  "NextTurn during m chat now =
    (case NextTurn_begin m of
       Inl e \<Rightarrow> Some (m, [], Some e)
     | Inr (m', currentAgent) \<Rightarrow> turn during m' currentAgent chat now)"

definition TurnByAgent :: "(Manager \<Rightarrow> Manager) \<Rightarrow> Manager \<Rightarrow> string \<Rightarrow> string + StreamChunk list
    \<Rightarrow> nat \<Rightarrow> (Manager \<times> StreamMessage list \<times> error option) option" where
  "TurnByAgent during m agentID chat now =
    (case TurnByAgent_begin m agentID of
       Inl e \<Rightarrow> Some (m, [], Some e)
     | Inr (m', targetAgent) \<Rightarrow> turn during m' targetAgent chat now)"

text \<open>A run of calls of \<^verbatim>\<open>NextTurn\<close>, each one returning before the next is made, with
  the results of the calls in order.\<close>

fun nextTurns :: "Manager \<Rightarrow> ((string + StreamChunk list) \<times> nat) list
    \<Rightarrow> (StreamMessage list \<times> error option) list option" where
  "nextTurns m [] = Some []"
| "nextTurns m ((chat, now) # rest) =
     (case NextTurn id m chat now of
        None \<Rightarrow> None
      | Some (m', evs, err) \<Rightarrow> map_option ((#) (evs, err)) (nextTurns m' rest))"

subsection \<open>Calls that interleave\<close>

text \<open>
  Every method of the manager changes the state only while it holds the lock, so a run
  of the program with several goroutines is a sequence of locked sections.  A state is
  the manager together with the number of turns in flight: calls of \<^verbatim>\<open>NextTurn\<close> and
  \<^verbatim>\<open>TurnByAgent\<close> that have passed their first locked section and have not returned.
  \<open>TurnTakesID\<close> and \<open>TurnReturns\<close> are the later locked sections of a turn in flight.
\<close>

datatype action =
    CallStart string
  | CallContinue string nat
  | CallStop
  | CallReset
  | CallSetMode Mode
  | CallUpdateAgents "Agent list"
  | CallNextTurn
  | CallTurnByAgent string
  | TurnTakesID
  | TurnReturns ending

fun step :: "Manager \<times> nat \<Rightarrow> action \<Rightarrow> Manager \<times> nat" where
  "step (m, n) (CallStart t) = (case Start m t of Inl e \<Rightarrow> (m, n) | Inr m' \<Rightarrow> (m', n))"
| "step (m, n) (CallContinue t now) = (Continue m t now, n)"
| "step (m, n) CallStop = (Stop m, n)"
| "step (m, n) CallReset = (Reset m, n)"
| "step (m, n) (CallSetMode md) = (SetMode m md, n)"
| "step (m, n) (CallUpdateAgents ags) = (UpdateAgents m ags, n)"
| "step (m, n) CallNextTurn =
     (case NextTurn_begin m of Inl e \<Rightarrow> (m, n) | Inr (m', a) \<Rightarrow> (m', Suc n))"
| "step (m, n) (CallTurnByAgent agentID) =
     (case TurnByAgent_begin m agentID of Inl e \<Rightarrow> (m, n) | Inr (m', a) \<Rightarrow> (m', Suc n))"
| "step (m, n) TurnTakesID = (if n = 0 then (m, n) else (fst (nextMsgID m), n))"
| "step (m, n) (TurnReturns e) = (if n = 0 then (m, n) else (finish e m, n - 1))"

definition run :: "Agent list \<Rightarrow> action list \<Rightarrow> Manager \<times> nat" where
  "run ags secs = foldl step (NewManager ags, 0) secs"

section \<open>Provider adapters\<close>

text \<open>
  The goroutine started by \<^verbatim>\<open>Chat\<close> reads the body of the response line by line.  The
  body is given by the lines that \<^verbatim>\<open>reader.ReadString\<close> returns without an error and
  by the error that ends the reading, \<open>None\<close> for \<^verbatim>\<open>io.EOF\<close> and the text of the
  error otherwise (a cancelled request ends in such an error).  \<^verbatim>\<open>json.Unmarshal\<close>
  is a parameter of the model: it maps the text to the decoded value, \<open>None\<close> when
  it returns an error.
\<close>

definition contentChunk :: "string \<Rightarrow> StreamChunk" where
  "contentChunk c = \<lparr>chunkContent = c, chunkDone = False, chunkError = None\<rparr>"

definition doneChunk :: StreamChunk where
  "doneChunk = \<lparr>chunkContent = [], chunkDone = True, chunkError = None\<rparr>"

definition errorChunk :: "string \<Rightarrow> StreamChunk" where
  "errorChunk e = \<lparr>chunkContent = [], chunkDone = False, chunkError = Some e\<rparr>"

text \<open>The start of the loop body, the same in both adapters: the line is trimmed; an
  empty line and a line without the prefix \<^verbatim>\<open>data: \<close> are skipped (\<open>None\<close>); otherwise
  the text behind the prefix is the data of the line.\<close>

definition dataOf :: "string \<Rightarrow> string option" where
  "dataOf l =
    (let line = TrimSpace l in
     if line = [] then None
     else if \<not> HasPrefix line ''data: '' then None
     else Some (TrimPrefix line ''data: ''))"

text \<open>What is sent when the reading ends.\<close>

definition readEnds :: "string option \<Rightarrow> StreamChunk list" where
  "readEnds final =
    (case final of None \<Rightarrow> [doneChunk] | Some e \<Rightarrow> [errorChunk (''read error: '' @ e)])"

subsection \<open>OpenAI\<close>

text \<open>The first element of \<^verbatim>\<open>openAIStreamResponse.Choices\<close>.\<close>

record Choice =
  deltaContent :: string
  FinishReason :: string

text \<open>The filter of lines 168--171 of internal/provider/openai.go.\<close>

definition looksLikeThinking :: "string \<Rightarrow> bool" where
  "looksLikeThinking content =
    (let lowerContent = ToLower content in
     Contains lowerContent ''thinking'' \<or> Contains lowerContent ''signature''
     \<or> (HasPrefix content ''<'' \<and> Contains content ''>'' \<and> Contains lowerContent ''think''))"

text \<open>The loop over the data of the lines that are not skipped.  A delta that the
  filter rejects leaves the iteration by \<^verbatim>\<open>continue\<close>, before the finish reason is
  looked at.\<close>

fun openaiLoop :: "(string \<Rightarrow> Choice list option) \<Rightarrow> string list \<Rightarrow> string option
    \<Rightarrow> StreamChunk list" where
  "openaiLoop unmarshal [] final = readEnds final"
| "openaiLoop unmarshal (data # rest) final =
     (if data = ''[DONE]'' then [doneChunk]
      else case unmarshal data of
        None \<Rightarrow> openaiLoop unmarshal rest final
      | Some [] \<Rightarrow> openaiLoop unmarshal rest final
      | Some (choice # _) \<Rightarrow>
         (let content = deltaContent choice in
          if content \<noteq> [] \<and> looksLikeThinking content then openaiLoop unmarshal rest final
          else (if content \<noteq> [] then [contentChunk content] else [])
               @ (if FinishReason choice = ''stop'' then [doneChunk]
                  else openaiLoop unmarshal rest final)))"

definition openaiStream :: "(string \<Rightarrow> Choice list option) \<Rightarrow> string list \<Rightarrow> string option
    \<Rightarrow> StreamChunk list" where
  "openaiStream unmarshal lines final = openaiLoop unmarshal (List.map_filter dataOf lines) final"

subsection \<open>Anthropic\<close>

text \<open>\<^verbatim>\<open>anthropicStreamEvent\<close>, with the nested fields flattened.\<close>

record AnthropicEvent =
  aeType :: string
  aeIndex :: int
  aeContentBlockType :: string
  aeDeltaType :: string
  aeDeltaText :: string

text \<open>The loop over the events decoded from the lines, with the two variables
  \<^verbatim>\<open>isThinkingBlock\<close> and \<^verbatim>\<open>currentBlockIndex\<close>.\<close>

fun anthropicLoop :: "AnthropicEvent list \<Rightarrow> string option \<Rightarrow> bool \<Rightarrow> int \<Rightarrow> StreamChunk list"
  where
  "anthropicLoop [] final isThinkingBlock currentBlockIndex = readEnds final"
| "anthropicLoop (event # rest) final isThinkingBlock currentBlockIndex =
     (if aeType event = ''content_block_start'' then
        anthropicLoop rest final (aeContentBlockType event = ''thinking'') (aeIndex event)
      else if aeType event = ''content_block_stop'' then
        anthropicLoop rest final
          (if aeIndex event = currentBlockIndex then False else isThinkingBlock)
          currentBlockIndex
      else if aeType event = ''content_block_delta'' then
        (if \<not> isThinkingBlock \<and> aeDeltaText event \<noteq> []
         then [contentChunk (aeDeltaText event)] else [])
        @ anthropicLoop rest final isThinkingBlock currentBlockIndex
      else if aeType event = ''message_stop'' then [doneChunk]
      else anthropicLoop rest final isThinkingBlock currentBlockIndex)"

text \<open>The events carried by the lines: a line that is skipped and a line whose data
  does not decode carry none.\<close>

definition eventOf :: "(string \<Rightarrow> AnthropicEvent option) \<Rightarrow> string \<Rightarrow> AnthropicEvent option"
  where
  "eventOf unmarshal l = (case dataOf l of None \<Rightarrow> None | Some data \<Rightarrow> unmarshal data)"

definition anthropicStream :: "(string \<Rightarrow> AnthropicEvent option) \<Rightarrow> string list \<Rightarrow> string option
    \<Rightarrow> StreamChunk list" where
  "anthropicStream unmarshal lines final =
     anthropicLoop (List.map_filter (eventOf unmarshal) lines) final False (- 1)"

section \<open>Example values\<close>

text \<open>A small roster and option values on which the theorems below are exercised.\<close>

definition mkAgent :: "string \<Rightarrow> string \<Rightarrow> Agent" where
  "mkAgent i n = \<lparr>ID = i, Name = n, Role = ''role'', SystemPrompt = ''You are an agent.'',
     ProviderType = ''openai'', agentModel = ''gpt-4'', Color = ''#4A90D9'',
     agentTemperature = Num (1/2), agentMaxTokens = 1024, agentTopP = Num 0, agentTopK = 0,
     agentFrequencyPenalty = Num 0, agentPresencePenalty = Num (-1),
     Provider = Some ''openai''\<rparr>"

definition analyst :: Agent where
  "analyst = mkAgent ''analyst'' ''Analyst''"

definition creative :: Agent where
  "creative = mkAgent ''creative'' ''Creative''"

definition critic :: Agent where
  "critic = mkAgent ''critic'' ''Critic''"

text \<open>The message that a first turn of \<open>analyst\<close> stores when the upstream answers
  \<^verbatim>\<open>Ban them.\<close> at time 7.\<close>

definition carsMessage :: Message where
  "carsMessage = \<lparr>msgID = ''msg_1'', msgAgentID = ''analyst'', msgAgentName = ''Analyst'',
     msgContent = ''Ban them.'', msgTimestamp = 7, msgColor = ''#4A90D9''\<rparr>"

text \<open>Sessions reached from a new manager by calls of its methods: after one finished
  turn; the same, then stopped; stopped while the first turn is in flight; and after a
  first turn whose \<^verbatim>\<open>Chat\<close> failed, then stopped.\<close>

definition afterFirstTurn :: Manager where
  "afterFirstTurn = fst (run [analyst, creative]
     [CallStart ''cars'', CallNextTurn, TurnTakesID, TurnReturns (Stores carsMessage)])"

definition stoppedSession :: Manager where
  "stoppedSession = fst (run [analyst, creative]
     [CallStart ''cars'', CallNextTurn, TurnTakesID, TurnReturns (Stores carsMessage), CallStop])"

definition stoppedInFlight :: "Manager \<times> nat" where
  "stoppedInFlight = run [analyst, creative]
     [CallStart ''cars'', CallNextTurn, TurnTakesID, CallStop]"

definition stuckSession :: Manager where
  "stuckSession = fst (run [analyst, creative]
     [CallStart ''cars'', CallNextTurn, TurnTakesID, TurnReturns ChatFails, CallStop])"

section \<open>Properties of Agent.Chat\<close>

lemma fillModel_fields:
  "MaxTokens (fillModel a opts) = MaxTokens opts"
  "Temperature (fillModel a opts) = Temperature opts"
  "TopP (fillModel a opts) = TopP opts"
  "TopK (fillModel a opts) = TopK opts"
  "FrequencyPenalty (fillModel a opts) = FrequencyPenalty opts"
  "PresencePenalty (fillModel a opts) = PresencePenalty opts"
  by (simp_all add: fillModel_def)

lemma fillMaxTokens_fields:
  "Model (fillMaxTokens a opts) = Model opts"
  "Temperature (fillMaxTokens a opts) = Temperature opts"
  "TopP (fillMaxTokens a opts) = TopP opts"
  "TopK (fillMaxTokens a opts) = TopK opts"
  "FrequencyPenalty (fillMaxTokens a opts) = FrequencyPenalty opts"
  "PresencePenalty (fillMaxTokens a opts) = PresencePenalty opts"
  by (simp_all add: fillMaxTokens_def)

lemma fillTemperature_fields:
  "Model (fillTemperature a opts) = Model opts"
  "MaxTokens (fillTemperature a opts) = MaxTokens opts"
  "TopP (fillTemperature a opts) = TopP opts"
  "TopK (fillTemperature a opts) = TopK opts"
  "FrequencyPenalty (fillTemperature a opts) = FrequencyPenalty opts"
  "PresencePenalty (fillTemperature a opts) = PresencePenalty opts"
  by (simp_all add: fillTemperature_def)

lemma fillTopP_fields:
  "Model (fillTopP a opts) = Model opts"
  "MaxTokens (fillTopP a opts) = MaxTokens opts"
  "Temperature (fillTopP a opts) = Temperature opts"
  "TopK (fillTopP a opts) = TopK opts"
  "FrequencyPenalty (fillTopP a opts) = FrequencyPenalty opts"
  "PresencePenalty (fillTopP a opts) = PresencePenalty opts"
  by (simp_all add: fillTopP_def)

lemma fillTopK_fields:
  "Model (fillTopK a opts) = Model opts"
  "MaxTokens (fillTopK a opts) = MaxTokens opts"
  "Temperature (fillTopK a opts) = Temperature opts"
  "TopP (fillTopK a opts) = TopP opts"
  "FrequencyPenalty (fillTopK a opts) = FrequencyPenalty opts"
  "PresencePenalty (fillTopK a opts) = PresencePenalty opts"
  by (simp_all add: fillTopK_def)

lemma fillFrequencyPenalty_fields:
  "Model (fillFrequencyPenalty a opts) = Model opts"
  "MaxTokens (fillFrequencyPenalty a opts) = MaxTokens opts"
  "Temperature (fillFrequencyPenalty a opts) = Temperature opts"
  "TopP (fillFrequencyPenalty a opts) = TopP opts"
  "TopK (fillFrequencyPenalty a opts) = TopK opts"
  "PresencePenalty (fillFrequencyPenalty a opts) = PresencePenalty opts"
  by (simp_all add: fillFrequencyPenalty_def)

lemma fillPresencePenalty_fields:
  "Model (fillPresencePenalty a opts) = Model opts"
  "MaxTokens (fillPresencePenalty a opts) = MaxTokens opts"
  "Temperature (fillPresencePenalty a opts) = Temperature opts"
  "TopP (fillPresencePenalty a opts) = TopP opts"
  "TopK (fillPresencePenalty a opts) = TopK opts"
  "FrequencyPenalty (fillPresencePenalty a opts) = FrequencyPenalty opts"
  by (simp_all add: fillPresencePenalty_def)

lemma mergeOptions_fields:
  "Model (mergeOptions a opts) = Model (fillModel a opts)"
  "Temperature (mergeOptions a opts) = Temperature (fillTemperature a opts)"
  "MaxTokens (mergeOptions a opts) = MaxTokens (fillMaxTokens a opts)"
  "TopP (mergeOptions a opts) = TopP (fillTopP a opts)"
  "TopK (mergeOptions a opts) = TopK (fillTopK a opts)"
  "FrequencyPenalty (mergeOptions a opts) = FrequencyPenalty (fillFrequencyPenalty a opts)"
  "PresencePenalty (mergeOptions a opts) = PresencePenalty (fillPresencePenalty a opts)"
proof -
  show "Model (mergeOptions a opts) = Model (fillModel a opts)"
    by (simp add: mergeOptions_def fillPresencePenalty_fields fillFrequencyPenalty_fields
        fillTopK_fields fillTopP_fields fillMaxTokens_fields fillTemperature_fields)
  show "Temperature (mergeOptions a opts) = Temperature (fillTemperature a opts)"
    by (simp add: mergeOptions_def fillPresencePenalty_fields fillFrequencyPenalty_fields
        fillTopK_fields fillTopP_fields fillMaxTokens_fields fillTemperature_def
        fillModel_fields)
  show "MaxTokens (mergeOptions a opts) = MaxTokens (fillMaxTokens a opts)"
    by (simp add: mergeOptions_def fillPresencePenalty_fields fillFrequencyPenalty_fields
        fillTopK_fields fillTopP_fields fillMaxTokens_def fillTemperature_fields
        fillModel_fields)
  show "TopP (mergeOptions a opts) = TopP (fillTopP a opts)"
    by (simp add: mergeOptions_def fillPresencePenalty_fields fillFrequencyPenalty_fields
        fillTopK_fields fillTopP_def fillMaxTokens_fields fillTemperature_fields
        fillModel_fields)
  show "TopK (mergeOptions a opts) = TopK (fillTopK a opts)"
    by (simp add: mergeOptions_def fillPresencePenalty_fields fillFrequencyPenalty_fields
        fillTopK_def fillTopP_fields fillMaxTokens_fields fillTemperature_fields
        fillModel_fields)
  show "FrequencyPenalty (mergeOptions a opts) = FrequencyPenalty (fillFrequencyPenalty a opts)"
    by (simp add: mergeOptions_def fillPresencePenalty_fields fillFrequencyPenalty_def
        fillTopK_fields fillTopP_fields fillMaxTokens_fields fillTemperature_fields
        fillModel_fields)
  show "PresencePenalty (mergeOptions a opts) = PresencePenalty (fillPresencePenalty a opts)"
    by (simp add: mergeOptions_def fillPresencePenalty_def fillFrequencyPenalty_fields
        fillTopK_fields fillTopP_fields fillMaxTokens_fields fillTemperature_fields
        fillModel_fields)
qed

text \<open>
  Claim C4, as stated, fails: a per-call temperature that is deliberately 0 is replaced
  by the agent's configured temperature 0.5, since the merge tests the per-call value
  against the number zero and there is no separate mark for an option that is not set.
\<close>

theorem chat_explicit_zero_temperature_overridden:
  "Chat analyst [] (Options_zero\<lparr>Temperature := Num 0\<rparr>)
     = Inr ([\<lparr>pmRole = ''system'', pmContent = ''You are an agent.''\<rparr>],
            \<lparr>Model = ''gpt-4'', MaxTokens = 1024, Temperature = Num (1/2), TopP = Num 0,
             TopK = 0, FrequencyPenalty = Num 0, PresencePenalty = Num (-1)\<rparr>)"
  by (simp add: Chat_def mergeOptions_def fillModel_def fillTemperature_def fillMaxTokens_def
      fillTopP_def fillTopK_def fillFrequencyPenalty_def fillPresencePenalty_def
      analyst_def mkAgent_def Options_zero_def f_eq0_def f_gt0_def f_ne0_def)

text \<open>
  Claim C4, amended: \<^verbatim>\<open>Agent.Chat\<close> hands the merged options to the adapter, and in
  the merge the value zero (the empty string for the model) is the mark of an option that
  is not set.  A per-call option different from zero wins; a per-call option equal to
  zero, also one set to 0 on purpose, is replaced by the agent's configured value when
  that is positive (different from zero for the two penalties); otherwise the option
  stays zero and the adapter's own default applies.
\<close>

theorem chat_option_merge:
  "(Provider a \<noteq> None \<longrightarrow>
      (\<exists>fm. Chat a ms opts = Inr (fm, mergeOptions a opts)))
   \<and> Model (mergeOptions a opts) = (if Model opts \<noteq> [] then Model opts else agentModel a)
   \<and> Temperature (mergeOptions a opts) =
       (if Temperature opts \<noteq> Num 0 then Temperature opts
        else if f_gt0 (agentTemperature a) then agentTemperature a else Num 0)
   \<and> MaxTokens (mergeOptions a opts) =
       (if MaxTokens opts \<noteq> 0 then MaxTokens opts
        else if 0 < agentMaxTokens a then agentMaxTokens a else 0)
   \<and> TopP (mergeOptions a opts) =
       (if TopP opts \<noteq> Num 0 then TopP opts
        else if f_gt0 (agentTopP a) then agentTopP a else Num 0)
   \<and> TopK (mergeOptions a opts) =
       (if TopK opts \<noteq> 0 then TopK opts else if 0 < agentTopK a then agentTopK a else 0)
   \<and> FrequencyPenalty (mergeOptions a opts) =
       (if FrequencyPenalty opts \<noteq> Num 0 then FrequencyPenalty opts
        else if f_ne0 (agentFrequencyPenalty a) then agentFrequencyPenalty a else Num 0)
   \<and> PresencePenalty (mergeOptions a opts) =
       (if PresencePenalty opts \<noteq> Num 0 then PresencePenalty opts
        else if f_ne0 (agentPresencePenalty a) then agentPresencePenalty a else Num 0)"
proof -
  have chat: "Provider a \<noteq> None \<longrightarrow> (\<exists>fm. Chat a ms opts = Inr (fm, mergeOptions a opts))"
    by (simp add: Chat_def Let_def)
  have 1: "Model (mergeOptions a opts) = (if Model opts \<noteq> [] then Model opts else agentModel a)"
    by (simp add: mergeOptions_fields fillModel_def)
  have 2: "Temperature (mergeOptions a opts) =
       (if Temperature opts \<noteq> Num 0 then Temperature opts
        else if f_gt0 (agentTemperature a) then agentTemperature a else Num 0)"
    by (simp add: mergeOptions_fields fillTemperature_def f_eq0_def)
  have 3: "MaxTokens (mergeOptions a opts) =
       (if MaxTokens opts \<noteq> 0 then MaxTokens opts
        else if 0 < agentMaxTokens a then agentMaxTokens a else 0)"
    by (simp add: mergeOptions_fields fillMaxTokens_def)
  have 4: "TopP (mergeOptions a opts) =
       (if TopP opts \<noteq> Num 0 then TopP opts
        else if f_gt0 (agentTopP a) then agentTopP a else Num 0)"
    by (simp add: mergeOptions_fields fillTopP_def f_eq0_def)
  have 5: "TopK (mergeOptions a opts) =
       (if TopK opts \<noteq> 0 then TopK opts else if 0 < agentTopK a then agentTopK a else 0)"
    by (simp add: mergeOptions_fields fillTopK_def)
  have 6: "FrequencyPenalty (mergeOptions a opts) =
       (if FrequencyPenalty opts \<noteq> Num 0 then FrequencyPenalty opts
        else if f_ne0 (agentFrequencyPenalty a) then agentFrequencyPenalty a else Num 0)"
    by (simp add: mergeOptions_fields fillFrequencyPenalty_def f_eq0_def)
  have 7: "PresencePenalty (mergeOptions a opts) =
       (if PresencePenalty opts \<noteq> Num 0 then PresencePenalty opts
        else if f_ne0 (agentPresencePenalty a) then agentPresencePenalty a else Num 0)"
    by (simp add: mergeOptions_fields fillPresencePenalty_def f_eq0_def)
  from chat 1 2 3 4 5 6 7 show ?thesis by blast
qed

theorem chat_option_merge_witness:
  "Provider analyst \<noteq> None
   \<and> (\<exists>fm. Chat analyst [] (Options_zero\<lparr>Temperature := Num 2, TopK := 0\<rparr>)
         = Inr (fm, mergeOptions analyst (Options_zero\<lparr>Temperature := Num 2, TopK := 0\<rparr>)))
   \<and> Temperature (mergeOptions analyst (Options_zero\<lparr>Temperature := Num 2, TopK := 0\<rparr>)) = Num 2
   \<and> MaxTokens (mergeOptions analyst (Options_zero\<lparr>Temperature := Num 2, TopK := 0\<rparr>)) = 1024
   \<and> TopK (mergeOptions analyst (Options_zero\<lparr>Temperature := Num 2, TopK := 0\<rparr>)) = 0
   \<and> PresencePenalty (mergeOptions analyst (Options_zero\<lparr>Temperature := Num 2, TopK := 0\<rparr>))
       = Num (-1)"
  using chat_option_merge [of analyst "[]" "Options_zero\<lparr>Temperature := Num 2, TopK := 0\<rparr>"]
  by (simp add: analyst_def mkAgent_def Options_zero_def f_gt0_def f_ne0_def)

section \<open>Properties of the sanitizer\<close>

lemma one_byte:
  assumes "s' \<in> set (case s of [] \<Rightarrow> [] | x # xs \<Rightarrow> if P x then [xs] else [])"
  shows "\<exists>x. s = x # s' \<and> P x"
  using assms by (cases s) (simp_all split: if_splits)

lemma matches_consumed:
  "s' \<in> set (matches r s) \<Longrightarrow> \<exists>p. s = p @ s' \<and> (needs r c \<longrightarrow> c \<in> set p)"
proof (induction r s arbitrary: s' rule: matches.induct)
  case (1 s)
  then show ?case by simp
next
  case (2 d s)
  from "2.prems" have "s' \<in> set (case s of [] \<Rightarrow> [] | x # xs \<Rightarrow> if x = d then [xs] else [])"
    by simp
  from one_byte [OF this] have "s = [d] @ s'" by auto
  then show ?case by (intro exI [of _ "[d]"]) simp
next
  case (3 cs s)
  from "3.prems" have "s' \<in> set (case s of [] \<Rightarrow> [] | x # xs \<Rightarrow> if x \<in> set cs then [xs] else [])"
    by simp
  from one_byte [OF this] obtain x where "s = [x] @ s'" by auto
  then show ?case by (intro exI [of _ "[x]"]) simp
next
  case (4 cs s)
  from "4.prems" have "s' \<in> set (case s of [] \<Rightarrow> [] | x # xs \<Rightarrow> if x \<notin> set cs then [xs] else [])"
    by simp
  from one_byte [OF this] obtain x where "s = [x] @ s'" by auto
  then show ?case by (intro exI [of _ "[x]"]) simp
next
  case (5 s)
  from "5.prems" have "s' \<in> set (case s of [] \<Rightarrow> [] | x # xs \<Rightarrow> if True then [xs] else [])"
    by simp
  from one_byte [OF this] obtain x where "s = [x] @ s'" by auto
  then show ?case by (intro exI [of _ "[x]"]) simp
next
  case (6 r1 r2 s)
  from "6.prems" have "\<exists>s1 \<in> set (matches r1 s). s' \<in> set (matches r2 s1)"
    by simp
  then obtain s1 where s1: "s1 \<in> set (matches r1 s)" and s': "s' \<in> set (matches r2 s1)"
    by blast
  from "6.IH"(1) [OF s1] obtain p1 where p1: "s = p1 @ s1" "needs r1 c \<longrightarrow> c \<in> set p1" by blast
  from "6.IH"(2) [OF s1 s'] obtain p2 where p2: "s1 = p2 @ s'" "needs r2 c \<longrightarrow> c \<in> set p2" by blast
  from p1 p2 have "s = (p1 @ p2) @ s' \<and> (needs (Seq r1 r2) c \<longrightarrow> c \<in> set (p1 @ p2))" by auto
  then show ?case by blast
next
  case (7 r1 r2 s)
  from "7.prems" have "s' \<in> set (matches r1 s) \<or> s' \<in> set (matches r2 s)" by simp
  then show ?case
  proof
    assume "s' \<in> set (matches r1 s)"
    from "7.IH"(1) [OF this] show ?thesis by auto
  next
    assume "s' \<in> set (matches r2 s)"
    from "7.IH"(2) [OF this] show ?thesis by auto
  qed
next
  case (8 r s)
  from "8.prems" have "s' \<in> set (matches r s) \<or> s' = s" by auto
  then show ?case
  proof
    assume "s' \<in> set (matches r s)"
    from "8.IH" [OF this] obtain p where "s = p @ s'" by blast
    then show ?thesis by simp
  next
    assume "s' = s"
    then show ?thesis by simp
  qed
next
  case (9 r s)
  from "9.prems" have "s' = s \<or>
      (\<exists>s1 \<in> set (filter (\<lambda>t. length t < length s) (matches r s)). s' \<in> set (matches (Star r) s1))"
    by (subst (asm) matches.simps) (auto simp del: matches.simps)
  then show ?case
  proof
    assume "s' = s"
    then show ?thesis by simp
  next
    assume "\<exists>s1 \<in> set (filter (\<lambda>t. length t < length s) (matches r s)).
       s' \<in> set (matches (Star r) s1)"
    then obtain s1 where f: "s1 \<in> set (filter (\<lambda>t. length t < length s) (matches r s))"
      and s': "s' \<in> set (matches (Star r) s1)" by blast
    from f have s1: "s1 \<in> set (matches r s)" by simp
    from "9.IH"(1) [OF s1] obtain p1 where p1: "s = p1 @ s1" by blast
    from "9.IH"(2) [OF f s'] obtain p2 where p2: "s1 = p2 @ s'" by blast
    from p1 p2 have "s = (p1 @ p2) @ s'" by simp
    then show ?thesis by simp
  qed
next
  case (10 r s)
  from "10.prems" have "s' = s \<or>
      (\<exists>s1 \<in> set (filter (\<lambda>t. length t < length s) (matches r s)).
         s' \<in> set (matches (LazyStar r) s1))"
    by (subst (asm) matches.simps) (auto simp del: matches.simps)
  then show ?case
  proof
    assume "s' = s"
    then show ?thesis by simp
  next
    assume "\<exists>s1 \<in> set (filter (\<lambda>t. length t < length s) (matches r s)).
       s' \<in> set (matches (LazyStar r) s1)"
    then obtain s1 where f: "s1 \<in> set (filter (\<lambda>t. length t < length s) (matches r s))"
      and s': "s' \<in> set (matches (LazyStar r) s1)" by blast
    from f have s1: "s1 \<in> set (matches r s)" by simp
    from "10.IH"(1) [OF s1] obtain p1 where p1: "s = p1 @ s1" by blast
    from "10.IH"(2) [OF f s'] obtain p2 where p2: "s1 = p2 @ s'" by blast
    from p1 p2 have "s = (p1 @ p2) @ s'" by simp
    then show ?thesis by simp
  qed
qed


lemma matches_needs_consume: "needs r c \<Longrightarrow> s \<notin> set (matches r s)"
proof
  assume n: "needs r c" and "s \<in> set (matches r s)"
  from matches_consumed [OF this(2), of c] n obtain p where "s = p @ s" "c \<in> set p" by blast
  then show False by simp
qed








lemma pattern_needs:
  "needs thinkingBlockRegex (CHR ''<'')"
  "needs antThinkingBlockRegex (CHR ''<'')"
  "needs signatureBlockRegex (CHR ''<'')"
  "needs signatureAttrRegex dq"
  "needs jsonThinkingRegex (CHR ''{'')"
  "needs anyThinkingTagRegex (CHR ''<'')"
  "needs anySignatureRegex dq"
  "needs thinkingContentRegex (CHR ''['')"
  "needs contentArrayRegex (CHR ''['')"
  by (simp_all add: thinkingBlockRegex_def antThinkingBlockRegex_def signatureBlockRegex_def
      signatureAttrRegex_def jsonThinkingRegex_def anyThinkingTagRegex_def anySignatureRegex_def
      thinkingContentRegex_def contentArrayRegex_def seqs_def str_def)





lemma patterns_consume:
  "s \<notin> set (matches thinkingBlockRegex s)"
  "s \<notin> set (matches antThinkingBlockRegex s)"
  "s \<notin> set (matches signatureBlockRegex s)"
  "s \<notin> set (matches signatureAttrRegex s)"
  "s \<notin> set (matches jsonThinkingRegex s)"
  "s \<notin> set (matches anyThinkingTagRegex s)"
  "s \<notin> set (matches anySignatureRegex s)"
  "s \<notin> set (matches thinkingContentRegex s)"
  "s \<notin> set (matches contentArrayRegex s)"
  by (rule matches_needs_consume, rule pattern_needs)+


text \<open>The loop over \<^verbatim>\<open>[thinking]\<close> spans does not end when the first closing mark
  stands before the first opening mark: the text of the next round is the same text.\<close>

lemma removeThinkingSpans_runs_forever:
  "removeThinkingSpans ''[/thinking][thinking]'' = None"
proof (rule ccontr)
  assume "removeThinkingSpans ''[/thinking][thinking]'' \<noteq> None"
  then obtain y where y: "removeThinkingSpans ''[/thinking][thinking]'' = Some y" by auto
  have i1: "Index ''[/thinking][thinking]'' ''[thinking]'' = Some 11" by code_simp
  have i2: "Index ''[/thinking][thinking]'' ''[/thinking]'' = Some 0" by code_simp
  have "''[/thinking][thinking]'' \<noteq> ''[/thinking][thinking]''"
  proof (rule removeThinkingSpans.raw_induct
      [where P = "\<lambda>x y. x \<noteq> ''[/thinking][thinking]''", OF _ y])
    fix f :: "string \<Rightarrow> string option" and x y
    assume IH: "\<And>x y. f x = Some y \<Longrightarrow> x \<noteq> ''[/thinking][thinking]''"
    assume step: "(case Index x ''[thinking]'' of
       None \<Rightarrow> Some x
     | Some start \<Rightarrow>
        (case Index x ''[/thinking]'' of
           None \<Rightarrow> Some (take start x)
         | Some end \<Rightarrow> f (take start x @ drop (end + length ''[/thinking]'') x))) = Some y"
    show "x \<noteq> ''[/thinking][thinking]''"
    proof
      assume x: "x = ''[/thinking][thinking]''"
      from step have "f ''[/thinking][thinking]'' = Some y"
        unfolding x i1 i2 by simp
      from IH [OF this] show False by simp
    qed
  qed
  then show False by simp
qed

lemma sanitizer_runs_forever: "cleanMessageContent ''[/thinking][thinking]'' = None"
proof -
  have "regexPasses ''[/thinking][thinking]'' = ''[/thinking][thinking]''" by code_simp
  then show ?thesis by (simp add: cleanMessageContent_def removeThinkingSpans_runs_forever)
qed




section \<open>Properties of the manager\<close>

lemma inc64_small: "0 \<le> n \<Longrightarrow> n < 2 ^ 63 - 1 \<Longrightarrow> inc64 n = n + 1"
  by (simp add: inc64_def)

lemma afterFirstTurn_eq:
  "afterFirstTurn = \<lparr>agents = [analyst, creative], messages = [carsMessage], topic = ''cars'',
     mode = ModeRoundRobin, currentIndex = 1, isRunning = True, isTurnInProgress = False,
     ctx = Some 0, msgCounter = 1, scopes = [False]\<rparr>"
  by (simp add: afterFirstTurn_def run_def Start_def NewManager_def withCancel_def
      NextTurn_begin_def nextMsgID_def inc64_def)

lemma stoppedSession_eq:
  "stoppedSession = \<lparr>agents = [analyst, creative], messages = [carsMessage], topic = ''cars'',
     mode = ModeRoundRobin, currentIndex = 1, isRunning = False, isTurnInProgress = False,
     ctx = Some 0, msgCounter = 1, scopes = [True]\<rparr>"
  by (simp add: stoppedSession_def run_def Start_def NewManager_def withCancel_def
      NextTurn_begin_def nextMsgID_def inc64_def Stop_def cancelScope_def)

lemma stoppedInFlight_eq:
  "stoppedInFlight = (\<lparr>agents = [analyst, creative], messages = [], topic = ''cars'',
     mode = ModeRoundRobin, currentIndex = 1, isRunning = False, isTurnInProgress = True,
     ctx = Some 0, msgCounter = 1, scopes = [True]\<rparr>, 1)"
  by (simp add: stoppedInFlight_def run_def Start_def NewManager_def withCancel_def
      NextTurn_begin_def nextMsgID_def inc64_def Stop_def cancelScope_def)

lemma stuckSession_eq:
  "stuckSession = \<lparr>agents = [analyst, creative], messages = [], topic = ''cars'',
     mode = ModeRoundRobin, currentIndex = 1, isRunning = False, isTurnInProgress = True,
     ctx = Some 0, msgCounter = 1, scopes = [True]\<rparr>"
  by (simp add: stuckSession_def run_def Start_def NewManager_def withCancel_def
      NextTurn_begin_def nextMsgID_def inc64_def Stop_def cancelScope_def)

subsection \<open>Start\<close>

text \<open>
  Claim C6, as stated, fails: \<^verbatim>\<open>Start\<close> does not reset the message counter.  The
  session \<open>stoppedSession\<close> is reached by \<^verbatim>\<open>Start\<close>, one finished turn and
  \<^verbatim>\<open>Stop\<close>; its message counter is 1, and after the next \<^verbatim>\<open>Start\<close> it is still 1,
  while the log is cleared and the cursor is back at 0.
\<close>

theorem start_keeps_message_counter:
  "Start stoppedSession ''bikes''
     = Inr \<lparr>agents = [analyst, creative], messages = [], topic = ''bikes'',
            mode = ModeRoundRobin, currentIndex = 0, isRunning = True,
            isTurnInProgress = False, ctx = Some 1, msgCounter = 1,
            scopes = [True, False]\<rparr>"
  by (simp add: stoppedSession_eq Start_def withCancel_def)

text \<open>
  Claim C6, amended: \<^verbatim>\<open>Start\<close> fails with AlreadyRunning when the running flag is set.
  Otherwise it sets the topic, clears the message log, resets the round-robin cursor to
  0, allocates a fresh cancellation scope (a new cell of the store, not cancelled, every
  older scope left as it was) and sets the running flag.  It leaves the message counter,
  the roster, the mode and the turn-in-progress flag as they were: the message counter is
  set to zero only by \<^verbatim>\<open>Reset\<close>, and after \<^verbatim>\<open>Start\<close> the session is running with no
  turn in progress exactly when no turn was in progress before the call.
\<close>

theorem start_effect:
  "(isRunning m \<longrightarrow> Start m t = Inl AlreadyRunning)
   \<and> (\<not> isRunning m \<longrightarrow>
        (\<exists>m'. Start m t = Inr m'
           \<and> topic m' = t \<and> messages m' = [] \<and> currentIndex m' = 0 \<and> isRunning m'
           \<and> ctx m' = Some (length (scopes m))
           \<and> length (scopes m') = Suc (length (scopes m))
           \<and> scopes m' ! length (scopes m) = False
           \<and> take (length (scopes m)) (scopes m') = scopes m
           \<and> msgCounter m' = msgCounter m
           \<and> agents m' = agents m \<and> mode m' = mode m
           \<and> isTurnInProgress m' = isTurnInProgress m
           \<and> ((isRunning m' \<and> \<not> isTurnInProgress m') = (\<not> isTurnInProgress m))))
   \<and> msgCounter (Reset m) = 0"
  by (simp add: Start_def withCancel_def Reset_def)

theorem start_effect_witness:
  "\<not> isRunning stoppedSession
   \<and> messages stoppedSession \<noteq> [] \<and> currentIndex stoppedSession = 1
   \<and> msgCounter stoppedSession = 1 \<and> scopes stoppedSession = [True]
   \<and> (\<exists>m'. Start stoppedSession ''bikes'' = Inr m'
         \<and> topic m' = ''bikes'' \<and> messages m' = [] \<and> currentIndex m' = 0 \<and> isRunning m'
         \<and> ctx m' = Some 1 \<and> scopes m' = [True, False] \<and> msgCounter m' = 1
         \<and> \<not> isTurnInProgress m')
   \<and> \<not> isRunning stuckSession \<and> isTurnInProgress stuckSession
   \<and> (\<exists>m'. Start stuckSession ''bikes'' = Inr m' \<and> isRunning m' \<and> isTurnInProgress m')
   \<and> isRunning afterFirstTurn
   \<and> Start afterFirstTurn ''bikes'' = Inl AlreadyRunning
   \<and> msgCounter (Reset stoppedSession) = 0"
  using start_effect [of stoppedSession "''bikes''"] start_effect [of stuckSession "''bikes''"]
    start_effect [of afterFirstTurn "''bikes''"]
  by (simp add: stoppedSession_eq stuckSession_eq afterFirstTurn_eq Start_def withCancel_def
      Reset_def cancelScope_def)

subsection \<open>At most one turn in flight\<close>

lemma selectNextAgent_flag:
  "selectNextAgent m = Inr (m', a) \<Longrightarrow> isTurnInProgress m' = isTurnInProgress m"
  by (auto simp: selectNextAgent_def Let_def split: if_splits list.splits option.splits)

lemma NextTurn_begin_flag:
  "NextTurn_begin m = Inr (m', a) \<Longrightarrow> \<not> isTurnInProgress m \<and> isTurnInProgress m'"
  by (auto simp: NextTurn_begin_def Let_def split: if_splits dest: selectNextAgent_flag)

lemma TurnByAgent_begin_flag:
  "TurnByAgent_begin m agentID = Inr (m', a) \<Longrightarrow> \<not> isTurnInProgress m \<and> isTurnInProgress m'"
  by (auto simp: TurnByAgent_begin_def split: if_splits option.splits)

lemma other_calls_flag:
  "Start m t = Inr m' \<Longrightarrow> isTurnInProgress m' = isTurnInProgress m"
  "isTurnInProgress (Continue m t now) = isTurnInProgress m"
  "isTurnInProgress (Stop m) = isTurnInProgress m"
  "isTurnInProgress (Reset m) = isTurnInProgress m"
  "isTurnInProgress (SetMode m md) = isTurnInProgress m"
  "isTurnInProgress (UpdateAgents m ags) = isTurnInProgress m"
  "isTurnInProgress (fst (nextMsgID m)) = isTurnInProgress m"
  by (auto simp: Start_def Continue_def Stop_def Reset_def SetMode_def UpdateAgents_def
      nextMsgID_def withCancel_def cancelScope_def Let_def split: if_splits option.splits)

text \<open>The invariant of the interleaved runs: no turn is in flight, or exactly one is and
  the flag is set.\<close>

definition oneTurn :: "Manager \<times> nat \<Rightarrow> bool" where
  "oneTurn s = (snd s = 0 \<or> (snd s = 1 \<and> isTurnInProgress (fst s)))"

lemma step_oneTurn:
  assumes "oneTurn (m, n)"
  shows "oneTurn (step (m, n) a)"
proof (cases a)
  case (CallStart t)
  with assms show ?thesis
    by (cases "Start m t") (auto simp: oneTurn_def dest: other_calls_flag(1))
next
  case CallNextTurn
  show ?thesis
  proof (cases "NextTurn_begin m")
    case (Inl e)
    with assms CallNextTurn show ?thesis by simp
  next
    case (Inr r)
    obtain m' ag where r: "r = (m', ag)" by (cases r)
    from Inr r have "\<not> isTurnInProgress m \<and> isTurnInProgress m'"
      using NextTurn_begin_flag by simp
    with assms Inr r CallNextTurn show ?thesis by (simp add: oneTurn_def)
  qed
next
  case (CallTurnByAgent agentID)
  show ?thesis
  proof (cases "TurnByAgent_begin m agentID")
    case (Inl e)
    with assms CallTurnByAgent show ?thesis by simp
  next
    case (Inr r)
    obtain m' ag where r: "r = (m', ag)" by (cases r)
    from Inr r have "\<not> isTurnInProgress m \<and> isTurnInProgress m'"
      using TurnByAgent_begin_flag by simp
    with assms Inr r CallTurnByAgent show ?thesis by (simp add: oneTurn_def)
  qed
qed (use assms in \<open>auto simp: oneTurn_def other_calls_flag\<close>)

lemma run_oneTurn: "oneTurn (run ags acts)"
proof (induction acts rule: rev_induct)
  case Nil
  show ?case by (simp add: run_def oneTurn_def)
next
  case (snoc a acts)
  obtain m n where mn: "run ags acts = (m, n)" by (cases "run ags acts")
  have "run ags (acts @ [a]) = step (m, n) a"
    using mn by (simp add: run_def)
  with snoc mn show ?case by (simp add: step_oneTurn)
qed

text \<open>
  Claim C1, as stated, fails: a call made while a turn is executing need not fail with
  TurnInProgress.  In \<open>stoppedInFlight\<close> the first turn is in flight (it has passed
  its first locked section and has not returned), the flag is set, and \<^verbatim>\<open>Stop\<close> has
  been called; \<^verbatim>\<open>NextTurn\<close> and \<^verbatim>\<open>TurnByAgent\<close> then fail with NotRunning, the check
  of the running flag being the first one.
\<close>

theorem call_during_stopped_turn_not_running:
  "snd stoppedInFlight = 1
   \<and> isTurnInProgress (fst stoppedInFlight)
   \<and> NextTurn_begin (fst stoppedInFlight) = Inl NotRunning
   \<and> TurnByAgent_begin (fst stoppedInFlight) ''creative'' = Inl NotRunning"
  by (simp add: stoppedInFlight_eq NextTurn_begin_def TurnByAgent_begin_def)

text \<open>
  Claim C1, amended: while the turn-in-progress flag is set, no call of \<^verbatim>\<open>NextTurn\<close> or
  \<^verbatim>\<open>TurnByAgent\<close> starts a turn: the call fails with TurnInProgress when the session is
  running and with NotRunning when it is not (it was stopped or reset while the turn
  executes).  In every interleaving of the locked sections of calls on a new manager at
  most one turn is in flight, and while one is in flight the flag is set.
\<close>

theorem turn_mutual_exclusion:
  "(isTurnInProgress m \<longrightarrow>
      NextTurn_begin m = Inl (if isRunning m then TurnInProgress else NotRunning)
      \<and> TurnByAgent_begin m agentID = Inl (if isRunning m then TurnInProgress else NotRunning))
   \<and> snd (run ags acts) \<le> 1
   \<and> (snd (run ags acts) = 1 \<longrightarrow> isTurnInProgress (fst (run ags acts)))"
proof -
  have "isTurnInProgress m \<longrightarrow>
      NextTurn_begin m = Inl (if isRunning m then TurnInProgress else NotRunning)
      \<and> TurnByAgent_begin m agentID = Inl (if isRunning m then TurnInProgress else NotRunning)"
    by (simp add: NextTurn_begin_def TurnByAgent_begin_def)
  moreover have "snd (run ags acts) \<le> 1
      \<and> (snd (run ags acts) = 1 \<longrightarrow> isTurnInProgress (fst (run ags acts)))"
    using run_oneTurn [of ags acts] by (auto simp: oneTurn_def)
  ultimately show ?thesis by blast
qed

theorem turn_mutual_exclusion_witness:
  "isTurnInProgress (fst (run [analyst, creative] [CallStart ''cars'', CallTurnByAgent ''creative'']))
   \<and> NextTurn_begin (fst (run [analyst, creative] [CallStart ''cars'', CallTurnByAgent ''creative'']))
       = Inl TurnInProgress
   \<and> TurnByAgent_begin
        (fst (run [analyst, creative] [CallStart ''cars'', CallTurnByAgent ''creative'']))
        ''analyst'' = Inl TurnInProgress
   \<and> snd (run [analyst, creative]
        [CallStart ''cars'', CallTurnByAgent ''creative'', CallNextTurn,
         CallTurnByAgent ''analyst'', TurnTakesID]) = 1
   \<and> isTurnInProgress (fst (run [analyst, creative]
        [CallStart ''cars'', CallTurnByAgent ''creative'', CallNextTurn,
         CallTurnByAgent ''analyst'', TurnTakesID]))"
  using turn_mutual_exclusion [of
      "fst (run [analyst, creative] [CallStart ''cars'', CallTurnByAgent ''creative''])"
      "''analyst''" "[analyst, creative]"
      "[CallStart ''cars'', CallTurnByAgent ''creative'', CallNextTurn,
        CallTurnByAgent ''analyst'', TurnTakesID]"]
  by (simp add: run_def Start_def NewManager_def withCancel_def NextTurn_begin_def
      TurnByAgent_begin_def nextMsgID_def analyst_def creative_def mkAgent_def)

subsection \<open>One turn\<close>

lemma collect_cancelled:
  assumes "\<forall>p \<in> set pre. chunkError p = None \<and> \<not> chunkDone p"
    and "chunkError c = Some e" and "Contains e ''context canceled''"
  shows "collect a mid (pre @ c # rest) fullContent
     = (map (chunkEv a mid) (filter (\<lambda>t. t \<noteq> []) (map chunkContent pre)), Cancelled)"
  using assms(1)
proof (induction pre arbitrary: fullContent)
  case Nil
  from assms(2,3) show ?case by simp
next
  case (Cons p pre)
  then show ?case by (simp add: Let_def)
qed

lemma begin_messages:
  "NextTurn_begin m = Inr (m1, a) \<Longrightarrow> messages m1 = messages m"
  "TurnByAgent_begin m agentID = Inr (m1, a) \<Longrightarrow> messages m1 = messages m"
  by (auto simp: NextTurn_begin_def TurnByAgent_begin_def selectNextAgent_def Let_def
      split: if_splits list.splits option.splits)

lemma turn_cancelled:
  assumes "\<forall>p \<in> set pre. chunkError p = None \<and> \<not> chunkDone p"
    and "chunkError c = Some e" and "Contains e ''context canceled''"
  shows "turn during m1 a (Inr (pre @ c # rest)) now
     = Some ((during (fst (nextMsgID m1)))\<lparr>isTurnInProgress := False\<rparr>,
             startEv a (snd (nextMsgID m1))
               # map (chunkEv a (snd (nextMsgID m1))) (filter (\<lambda>t. t \<noteq> []) (map chunkContent pre))
               @ [endEv a (snd (nextMsgID m1))],
             None)"
  by (simp add: turn_def collect_cancelled [OF assms] split: prod.splits)


text \<open>
  Claim C5: a turn whose stream is cancelled.  The adapters report the cancellation of
  the request as an error chunk whose text contains \<^verbatim>\<open>context canceled\<close> (the read
  error, wrapped as \<^verbatim>\<open>read error: ...\<close>).  When such a chunk arrives, before it only
  chunks without error and without the done mark, then \<^verbatim>\<open>NextTurn\<close> and \<^verbatim>\<open>TurnByAgent\<close>
  return nil; the events of the turn are the start event, one chunk event for every
  content received, and the end event, so the last event is an end event and none is an
  error event; the turn changes the manager only by clearing the turn-in-progress flag,
  so it appends no message and the text accumulated so far is dropped.  This holds
  whatever other calls do to the manager while the response streams (\<open>during\<close>); when
  that call is \<^verbatim>\<open>Stop\<close>, the log after the turn is the log before it and the session is
  not running.
\<close>

theorem stop_mid_stream_ends_gracefully:
  assumes "\<forall>p \<in> set pre. chunkError p = None \<and> \<not> chunkDone p"
    and "chunkError c = Some e" and "Contains e ''context canceled''"
    and "evs = startEv a (snd (nextMsgID m1))
               # map (chunkEv a (snd (nextMsgID m1))) (filter (\<lambda>t. t \<noteq> []) (map chunkContent pre))
               @ [endEv a (snd (nextMsgID m1))]"
    and "m' = (during (fst (nextMsgID m1)))\<lparr>isTurnInProgress := False\<rparr>"
  shows "(NextTurn_begin m = Inr (m1, a) \<longrightarrow>
            NextTurn during m (Inr (pre @ c # rest)) now = Some (m', evs, None)
            \<and> messages m1 = messages m)
       \<and> (TurnByAgent_begin m agentID = Inr (m1, a) \<longrightarrow>
            TurnByAgent during m agentID (Inr (pre @ c # rest)) now = Some (m', evs, None)
            \<and> messages m1 = messages m)
       \<and> evType (last evs) = ''end''
       \<and> (\<forall>ev \<in> set evs. evType ev \<noteq> ''error'')
       \<and> messages m' = messages (during (fst (nextMsgID m1)))
       \<and> \<not> isTurnInProgress m'
       \<and> (during = Stop \<longrightarrow> messages m' = messages m1 \<and> \<not> isRunning m')"
proof -
  note t = turn_cancelled [OF assms(1-3), of during m1 a rest now]
  have 1: "NextTurn_begin m = Inr (m1, a) \<longrightarrow>
            NextTurn during m (Inr (pre @ c # rest)) now = Some (m', evs, None)
            \<and> messages m1 = messages m"
    using t by (auto simp: NextTurn_def assms(4,5) begin_messages)
  have 2: "TurnByAgent_begin m agentID = Inr (m1, a) \<longrightarrow>
            TurnByAgent during m agentID (Inr (pre @ c # rest)) now = Some (m', evs, None)
            \<and> messages m1 = messages m"
    using t by (auto simp: TurnByAgent_def assms(4,5) begin_messages)
  have 3: "evType (last evs) = ''end''"
    by (simp add: assms(4) endEv_def)
  have 4: "\<forall>ev \<in> set evs. evType ev \<noteq> ''error''"
    by (auto simp: assms(4) startEv_def endEv_def chunkEv_def)
  have 5: "messages m' = messages (during (fst (nextMsgID m1))) \<and> \<not> isTurnInProgress m'"
    by (simp add: assms(5))
  have 6: "during = Stop \<longrightarrow> messages m' = messages m1 \<and> \<not> isRunning m'"
    by (auto simp: assms(5) Stop_def cancelScope_def nextMsgID_def split: option.splits)
  from 1 2 3 4 5 6 show ?thesis by blast
qed

lemma Contains_cancel: "Contains ''read error: context canceled'' ''context canceled''"
  by code_simp

theorem stop_mid_stream_ends_gracefully_witness:
  "NextTurn Stop afterFirstTurn
     (Inr [contentChunk ''Cars are '', contentChunk ''loud'',
           errorChunk ''read error: context canceled'']) 9
   = Some (\<lparr>agents = [analyst, creative], messages = [carsMessage], topic = ''cars'',
             mode = ModeRoundRobin, currentIndex = 0, isRunning = False,
             isTurnInProgress = False, ctx = Some 0, msgCounter = 2, scopes = [True]\<rparr>,
           [startEv creative ''msg_2'', chunkEv creative ''msg_2'' ''Cars are '',
            chunkEv creative ''msg_2'' ''loud'', endEv creative ''msg_2''],
           None)"
proof -
  have b: "NextTurn_begin afterFirstTurn
     = Inr (afterFirstTurn\<lparr>isTurnInProgress := True, currentIndex := 0\<rparr>, creative)"
    by (simp add: afterFirstTurn_eq NextTurn_begin_def)
  have p: "\<forall>p \<in> set [contentChunk ''Cars are '', contentChunk ''loud''].
      chunkError p = None \<and> \<not> chunkDone p"
    by (simp add: contentChunk_def)
  have c: "chunkError (errorChunk ''read error: context canceled'')
      = Some ''read error: context canceled''"
    by (simp add: errorChunk_def)
  from stop_mid_stream_ends_gracefully [OF p c Contains_cancel refl refl,
      where during = Stop
        and ?m1.0 = "afterFirstTurn\<lparr>isTurnInProgress := True, currentIndex := 0\<rparr>"
        and a = creative and m = afterFirstTurn and rest = "[]" and now = 9] b
  show ?thesis
    by (simp add: afterFirstTurn_eq nextMsgID_def inc64_def itoa_def digit_def Stop_def
        cancelScope_def contentChunk_def)
qed

text \<open>
  Claim C3 does not hold in the code when \<^verbatim>\<open>Agent.Chat\<close> returns an error: the turn
  returns without clearing the turn-in-progress flag (lines 417--424 and 553--560 have no
  \<^verbatim>\<open>m.isTurnInProgress = false\<close>), while the path of a failed stream clears it.  In the
  running session \<open>afterFirstTurn\<close> a turn whose \<^verbatim>\<open>Chat\<close> fails leaves the session
  running with the flag set, and every later \<^verbatim>\<open>NextTurn\<close> and \<^verbatim>\<open>TurnByAgent\<close>, whatever
  the upstream would answer, is refused with TurnInProgress.  The last conjunct is the
  sibling path: after a stream that fails the flag is clear.
\<close>

theorem chat_failure_keeps_turn_in_progress:
  "NextTurn id afterFirstTurn (Inl ''failed to create request'') 9
     = Some (afterFirstTurn\<lparr>currentIndex := 0, isTurnInProgress := True, msgCounter := 2\<rparr>,
             [startEv creative ''msg_2'', errorEv ''failed to create request''],
             Some (ChatFailed ''failed to create request''))
   \<and> NextTurn id (afterFirstTurn\<lparr>currentIndex := 0, isTurnInProgress := True, msgCounter := 2\<rparr>)
        chat now
     = Some (afterFirstTurn\<lparr>currentIndex := 0, isTurnInProgress := True, msgCounter := 2\<rparr>, [],
             Some TurnInProgress)
   \<and> TurnByAgent id
        (afterFirstTurn\<lparr>currentIndex := 0, isTurnInProgress := True, msgCounter := 2\<rparr>)
        ''analyst'' chat now
     = Some (afterFirstTurn\<lparr>currentIndex := 0, isTurnInProgress := True, msgCounter := 2\<rparr>, [],
             Some TurnInProgress)
   \<and> NextTurn id afterFirstTurn
        (Inr [contentChunk ''Cars are '', errorChunk ''read error: unexpected EOF'']) 9
     = Some (afterFirstTurn\<lparr>currentIndex := 0, isTurnInProgress := False, msgCounter := 2\<rparr>,
             [startEv creative ''msg_2'', chunkEv creative ''msg_2'' ''Cars are '',
              errorEv ''read error: unexpected EOF''],
             Some (StreamFailed ''read error: unexpected EOF''))"
proof -
  have n: "\<not> Contains ''read error: unexpected EOF'' ''context canceled''" by code_simp
  show ?thesis
    by (simp add: afterFirstTurn_eq NextTurn_def TurnByAgent_def NextTurn_begin_def
        TurnByAgent_begin_def turn_def nextMsgID_def inc64_def itoa_def digit_def n
        contentChunk_def errorChunk_def)
qed

end
